theory Spec2Isabelle
  imports Main
begin

section \<open>Data model\<close>

text \<open>
  The plugin class \<open>MyBrainService\<close> exists in two source files: \<open>src/src/brain.ts\<close> and
  \<open>src/unnamed/part_000\<close>. They share \<open>truncateStringList\<close>, \<open>getMessageContent\<close>,
  \<open>getClient\<close> and \<open>transcribeAudio\<close> word for word and differ in the model tables, in
  the request of \<open>generateImage\<close> and in the text of the validation error. Where the two
  differ a definition takes the file as its first argument.
\<close>

datatype source_file = Brain_ts | Part_000

text \<open>
  JavaScript strings are sequences of code units and \<open>.length\<close> counts them; a
  \<open>string\<close> here is the list of these units. A \<open>number\<close> that holds a character
  budget is an \<open>int\<close> (the comparison of the loop is the only arithmetic on it). An
  optional property (\<open>textModel?: string\<close>) or one the code guards with \<open>?.\<close> or
  \<open>??\<close> is an \<open>option\<close>, \<open>None\<close> being \<open>undefined\<close>.
\<close>

text \<open>
  \<open>ISettings\<close>. The property \<open>imageGenerationModel\<close> is declared in \<open>part_000\<close> only;
  \<open>brain.ts\<close> never reads it.
\<close>

datatype ImageDetail = Low | High

datatype ImageSize = Size256x256 | Size512x512 | Size1024x1024

record ISettings =
  apiKey :: "string option"
  textModel :: "string option"
  audioTranscriberModel :: "string option"
  audioTranscriberDefaultLanguage :: "string option"
  imageGenerationSize :: ImageSize
  imageGenerationCount :: string
  maxCharactersHistorySize :: "int option"
  imageDetail :: ImageDetail
  imageGenerationModel :: "string option"

record IBrainPromptContext =
  settings :: "ISettings option"
  senderId :: string

record FileAttachment =
  path :: string
  mimeType :: string

record TextBrainPrompt =
  role :: string
  message :: string
  attachments :: "FileAttachment list option"

record LocalAudioPrompt =
  audioFilePath :: string
  language :: "string option"

text \<open>
  The prompt of \<open>generateImage\<close>; \<open>imageMessage\<close> is its property \<open>message\<close> (a second
  record cannot reuse the field name of \<open>TextBrainPrompt\<close>).
\<close>

record ImageGenerationBrainPrompt =
  imageMessage :: string
  expectedResponseType :: string

text \<open>
  Modelled from the spec: \<open>BrainSettingsValidationResult\<close> is a class of the package
  \<open>@hubai/brain-sdk\<close>, which is not under \<open>src/\<close>. The specification describes it as
  \<open>{ success: bool, message/errors }\<close>: the object records the errors added to it and
  is successful when none was added. How \<open>getMessage()\<close> renders the recorded errors
  is the package's business; it is a parameter of the model (see \<open>env\<close> below).
\<close>

record BrainSettingsValidationResult =
  errors :: "string list"
  fieldErrors :: "(string \<times> string) list"

text \<open>
  Modelled from the spec: \<open>new BrainSettingsValidationResult()\<close>, the class being
  outside \<open>src/\<close>; nothing is recorded yet.
\<close>

definition newValidation :: BrainSettingsValidationResult where
  "newValidation = \<lparr>errors = [], fieldErrors = []\<rparr>"

text \<open>
  Modelled from the spec: \<open>addError(message)\<close> and \<open>addFieldError(field, message)\<close> of
  the same class; each records one more error.
\<close>

definition addError :: "string \<Rightarrow> BrainSettingsValidationResult \<Rightarrow> BrainSettingsValidationResult" where
  "addError msg v = v\<lparr>errors := errors v @ [msg]\<rparr>"

definition addFieldError ::
  "string \<Rightarrow> string \<Rightarrow> BrainSettingsValidationResult \<Rightarrow> BrainSettingsValidationResult" where
  "addFieldError field msg v = v\<lparr>fieldErrors := fieldErrors v @ [(field, msg)]\<rparr>"

text \<open>
  Modelled from the spec: the property \<open>success\<close> of the same class; a validation
  succeeds when no error was recorded.
\<close>

definition success :: "BrainSettingsValidationResult \<Rightarrow> bool" where
  "success v = (errors v = [] \<and> fieldErrors v = [])"

text \<open>
  What a lookup \<open>table[key]\<close> in an object literal evaluates to: the string stored under
  an own key, a member inherited from \<open>Object.prototype\<close> (named by its key), or
  \<open>undefined\<close>.
\<close>

datatype js_value = JString string | JInherited string | JUndefined

text \<open>Exceptions: a \<open>TypeError\<close> of the code itself, or a failure of a collaborator.\<close>

datatype error = TypeError | ProviderError string | FetchError string | FileError string

text \<open>
  The provider client. \<open>new OpenAI({ apiKey })\<close> creates an object; \<open>clientId\<close> is
  its identity (the count of clients constructed before it), so that a cached client
  and a new one with the same key are different values.
\<close>

record OpenAI =
  clientId :: nat
  clientApiKey :: "string option"

record MyBrainService =
  openAI :: "OpenAI option"
  currentKey :: "string option"
  constructed :: nat

text \<open>The requests (\<open>params\<close>) of the three operations.\<close>

record TranscriptionCreateParams =
  audio_file :: string
  params_language :: string
  audio_model :: "string option"

text \<open>\<open>n\<close> is a \<open>number\<close>: \<open>None\<close> is \<open>NaN\<close>.\<close>

record ImageGenerateParams =
  image_model :: js_value
  prompt :: string
  n :: "int option"
  size :: ImageSize
  user :: string
  response_format :: string

datatype ChatCompletionContentPart =
    TextPart string
  | ImageUrlPart string ImageDetail

datatype MessageContent =
    PlainText string
  | Parts "ChatCompletionContentPart list"

record ChatMessage =
  message_role :: string
  content :: MessageContent

record ChatCompletionCreateParams =
  model :: js_value
  messages :: "ChatMessage list"
  max_tokens :: int

text \<open>
  The provider's responses and the host's response envelope. \<open>responseMimeType\<close> and
  \<open>responseAttachments\<close> are the properties \<open>mimeType\<close> of a \<open>ResponseFile\<close> and
  \<open>attachments\<close> of a \<open>BrainPromptResponse\<close>; an envelope built without
  \<open>attachments\<close> has \<open>None\<close> there. A chat completion is the list of its choices'
  \<open>message.content\<close>, which can be \<open>null\<close>.
\<close>

record Image =
  url :: "string option"
  b64_json :: "string option"

type_synonym Buffer = "char list"

datatype FileData = StringData "string option" | BufferData Buffer

record ResponseFile =
  data :: FileData
  fileType :: string
  responseMimeType :: string

record BrainPromptResponse =
  result :: string
  responseAttachments :: "ResponseFile list option"
  validationResult :: BrainSettingsValidationResult

text \<open>
  The collaborators of the class, outside the repository: the SDK's rendering of a
  validation result, \<open>Number.parseInt\<close>, the file system
  (\<open>fs.readFileSync(path).toString('base64')\<close>), the three endpoints of the provider's
  client and \<open>fetch(url)\<close> followed by \<open>.buffer()\<close>. Each call that goes over the
  network or to the disk can throw.
\<close>

record env =
  getMessage :: "BrainSettingsValidationResult \<Rightarrow> string"
  parseInt :: "string \<Rightarrow> int option"
  readFileBase64 :: "string \<Rightarrow> error + string"
  transcriptionsCreate :: "OpenAI \<Rightarrow> TranscriptionCreateParams \<Rightarrow> error + string"
  imagesGenerate :: "OpenAI \<Rightarrow> ImageGenerateParams \<Rightarrow> error + Image list"
  chatCompletionsCreate ::
    "OpenAI \<Rightarrow> ChatCompletionCreateParams \<Rightarrow> error + string option list"
  fetchBuffer :: "string option \<Rightarrow> error + Buffer"

text \<open>The network calls an operation makes, in the order it makes them.\<close>

datatype call =
    TranscriptionsCreate OpenAI TranscriptionCreateParams
  | ImagesGenerate OpenAI ImageGenerateParams
  | ChatCompletionsCreate OpenAI ChatCompletionCreateParams
  | Fetch "string option"

text \<open>
  An operation returns its response or throws, leaves the service in a new state and
  has made some calls.
\<close>

type_synonym 'a run = "(error + 'a) \<times> MyBrainService \<times> call list"

section \<open>History windowing: \<open>truncateStringList\<close>\<close>

text \<open>
  The \<open>while\<close> loop of \<open>truncateStringList\<close>: \<open>list.shift()\<close> removes the first
  element; on an empty array it yields \<open>undefined\<close> and the loop breaks.
\<close>

fun truncate_while :: "int \<Rightarrow> int \<Rightarrow> TextBrainPrompt list \<Rightarrow> TextBrainPrompt list" where
  "truncate_while totalCharacters maxCharacters lst =
     (if totalCharacters > maxCharacters \<and> length lst > 1 then
        (case lst of
           [] \<Rightarrow> lst
         | firstItem # rest \<Rightarrow>
             truncate_while (totalCharacters - int (length (message firstItem)))
               maxCharacters rest)
      else lst)"

declare truncate_while.simps [simp del]

definition truncateStringList :: "TextBrainPrompt list \<Rightarrow> int \<Rightarrow> TextBrainPrompt list" where
  "truncateStringList lst maxCharacters =
     (if length lst \<le> 2 then lst
      else
        let totalCharacters = int (length (concat (map message lst)))
        in truncate_while totalCharacters maxCharacters lst)"

text \<open>The total message length of a turn list, as the specification counts it.\<close>

definition totalLength :: "TextBrainPrompt list \<Rightarrow> int" where
  "totalLength lst = (\<Sum>m\<leftarrow>lst. int (length (message m)))"

text \<open>
  The history of the specification's scenario: five turns of 1000 characters each
  (the \<open>i\<close>-th made of the \<open>i\<close>-th letter, to tell the turns apart).
\<close>

definition turn1000 :: "char \<Rightarrow> TextBrainPrompt" where
  "turn1000 c = \<lparr>role = ''user'', message = replicate 1000 c, attachments = None\<rparr>"

definition history5 :: "TextBrainPrompt list" where
  "history5 = map turn1000 ''abcde''"

section \<open>Settings validation and the client cache\<close>

text \<open>The template literal \<open>content\<close> of \<open>validateSettings\<close> in \<open>part_000\<close>.\<close>

definition content_text :: string where
  "content_text =
      ''# OpenAI API Key is Missing'' @ [CHR 0x0A] @
      ''    Ops! Looks like you didn'' @ [CHR 0x27] @ ''t configure your OpenAI API Key yet. This is required to use this brain.'' @ [CHR 0x0A] @
      [CHR 0x0A] @
      ''    ## How to get an OpenAI API Key'' @ [CHR 0x0A] @
      [CHR 0x0A] @
      ''    [Log in into your Open AI account](https://platform.openai.com/login?launch) or [create one](https://chat.openai.com/auth/login) if you don'' @ [CHR 0x27] @ ''t have it.'' @ [CHR 0x0A] @
      ''    After that, go to the [API Key section of Open AI dashboard](https://platform.openai.com/api-keys) and copy your API key (or generate one if you still don'' @ [CHR 0x27] @ ''t have).'' @ [CHR 0x0A] @
      [CHR 0x0A] @
      ''    ![Open AI Dashboard](https://www.hubai.app/assets/images/openaidashboard-a5eec4bd5881c386268c5f7e8a02cdbb.png)'' @ [CHR 0x0A] @
      [CHR 0x0A] @
      ''    ## How to configure your OpenAI API Key at HubAI'' @ [CHR 0x0A] @
      [CHR 0x0A] @
      ''    Go to the Brains page, select this brain and set the OpenAI API Key. After that just click on the **Save Settings** button and you'' @ [CHR 0x27] @ ''re ready to go!'' @ [CHR 0x0A] @
      ''    ![brain settings](https://www.hubai.app/assets/images/brain-settings-40bc90772d6b2ab68a8ab4a255cb4987.png)'' @ [CHR 0x0A] @
      [CHR 0x0A] @
      ''    ## How to use gpt-4 and Dall-e-3 premium models'' @ [CHR 0x0A] @
      ''In order to use all the features that Chat GPT brain has to offer (like gpt-4), we recommend you to buy at least $0.5 cents of credits on Open AI. You can do that [by clicking here](https://platform.openai.com/account/billing/overview). You only have to do this once.'' @ [CHR 0x0A] @
      ''    ''"

text \<open>
  \<open>!settings?.apiKey || settings.apiKey.length < 10\<close>: the key is falsy (no settings,
  no key, the empty string) or shorter than 10.
\<close>

definition validateSettings :: "source_file \<Rightarrow> ISettings option \<Rightarrow> BrainSettingsValidationResult" where
  "validateSettings src st =
     (let validation = newValidation in
      if (case st of
            None \<Rightarrow> True
          | Some s \<Rightarrow>
              (case apiKey s of
                 None \<Rightarrow> True
               | Some k \<Rightarrow> k = [] \<or> length k < 10))
      then (case src of
              Brain_ts \<Rightarrow> addFieldError ''apiKey'' ''API key format is invalid'' validation
            | Part_000 \<Rightarrow> addError content_text validation)
      else validation)"

definition newOpenAI :: "MyBrainService \<Rightarrow> ISettings \<Rightarrow> OpenAI" where
  "newOpenAI this s = \<lparr>clientId = constructed this, clientApiKey = apiKey s\<rparr>"

definition getClient :: "MyBrainService \<Rightarrow> ISettings \<Rightarrow> OpenAI \<times> MyBrainService" where
  "getClient this s =
     (case openAI this of
        None \<Rightarrow>
          (newOpenAI this s,
           this\<lparr>openAI := Some (newOpenAI this s), currentKey := apiKey s,
                constructed := Suc (constructed this)\<rparr>)
      | Some client \<Rightarrow>
          if currentKey this \<noteq> apiKey s then
            (newOpenAI this s,
             this\<lparr>openAI := Some (newOpenAI this s), currentKey := apiKey s,
                  constructed := Suc (constructed this)\<rparr>)
          else (client, this))"

section \<open>JavaScript helpers\<close>

definition startsWith :: "string \<Rightarrow> string \<Rightarrow> bool" where
  "startsWith s p = (take (length p) s = p)"

text \<open>\<open>a || b\<close> on optional strings: \<open>a\<close> when it is a non-empty string, else \<open>b\<close>.\<close>

definition truthy :: "string option \<Rightarrow> bool" where
  "truthy a = (case a of None \<Rightarrow> False | Some s \<Rightarrow> s \<noteq> [])"

definition js_or :: "string option \<Rightarrow> string option \<Rightarrow> string option" where
  "js_or a b = (if truthy a then a else b)"

definition js_or_literal :: "string option \<Rightarrow> string \<Rightarrow> string" where
  "js_or_literal a d = (case a of None \<Rightarrow> d | Some s \<Rightarrow> if s \<noteq> [] then s else d)"

text \<open>\<open>String.prototype.trim\<close> removes white space and line terminators at both ends.\<close>

definition isWhiteSpace :: "char \<Rightarrow> bool" where
  "isWhiteSpace c =
     (c \<in> set [CHR 0x09, CHR 0x0A, CHR 0x0B, CHR 0x0C, CHR 0x0D, CHR 0x20, CHR 0xA0])"

definition trim :: "string \<Rightarrow> string" where
  "trim s = rev (dropWhile isWhiteSpace (rev (dropWhile isWhiteSpace s)))"

text \<open>
  Property lookup in an object literal. An \<open>undefined\<close> key is the key
  \<open>"undefined"\<close>; a key the literal does not own is looked up in
  \<open>Object.prototype\<close>.
\<close>

definition objectPrototypeKeys :: "string list" where
  "objectPrototypeKeys =
     [''constructor'', ''__defineGetter__'', ''__defineSetter__'', ''hasOwnProperty'',
      ''__lookupGetter__'', ''__lookupSetter__'', ''isPrototypeOf'',
      ''propertyIsEnumerable'', ''toString'', ''valueOf'', ''__proto__'',
      ''toLocaleString'']"

definition propertyKey :: "string option \<Rightarrow> string" where
  "propertyKey k = (case k of None \<Rightarrow> ''undefined'' | Some s \<Rightarrow> s)"

definition js_lookup :: "(string \<times> string) list \<Rightarrow> string \<Rightarrow> js_value" where
  "js_lookup table key =
     (case map_of table key of
        Some v \<Rightarrow> JString v
      | None \<Rightarrow> if key \<in> set objectPrototypeKeys then JInherited key else JUndefined)"

text \<open>\<open>Array.prototype.map\<close> with a callback that can throw: the first throw ends it.\<close>

fun mapE :: "('a \<Rightarrow> error + 'b) \<Rightarrow> 'a list \<Rightarrow> error + 'b list" where
  "mapE f [] = Inr []"
| "mapE f (x # xs) =
     (case f x of
        Inl e \<Rightarrow> Inl e
      | Inr y \<Rightarrow> (case mapE f xs of Inl e \<Rightarrow> Inl e | Inr ys \<Rightarrow> Inr (y # ys)))"

section \<open>Audio transcription\<close>

definition transcribeAudio ::
  "source_file \<Rightarrow> env \<Rightarrow> MyBrainService \<Rightarrow> LocalAudioPrompt \<Rightarrow> IBrainPromptContext
   \<Rightarrow> BrainPromptResponse run" where
  "transcribeAudio src ev this p ctx =
     (let validationResult = validateSettings src (settings ctx) in
      if \<not> success validationResult then
        (Inr \<lparr>result = getMessage ev validationResult, responseAttachments = None,
              validationResult = validationResult\<rparr>, this, [])
      else
        (case settings ctx of
           None \<Rightarrow> (Inl TypeError, this, [])
         | Some s \<Rightarrow>
             let params =
                   \<lparr>audio_file = audioFilePath p,
                    params_language =
                      js_or_literal (js_or (language p) (audioTranscriberDefaultLanguage s))
                        ''en'',
                    audio_model = audioTranscriberModel s\<rparr>;
                 (client, this') = getClient this s
             in (case transcriptionsCreate ev client params of
                   Inl e \<Rightarrow> (Inl e, this', [TranscriptionsCreate client params])
                 | Inr text \<Rightarrow>
                     (Inr \<lparr>result = text, responseAttachments = None,
                           validationResult = validationResult\<rparr>,
                      this', [TranscriptionsCreate client params]))))"

section \<open>Image generation\<close>

text \<open>The table that \<open>generateImage\<close> of \<open>part_000\<close> calls \<open>textModels\<close>.\<close>

definition imageModels :: "(string \<times> string) list" where
  "imageModels = [(''Dall-E 2'', ''dall-e-2''), (''Dall-E 3'', ''dall-e-3'')]"

text \<open>
  The request of \<open>generateImage\<close>. \<open>brain.ts\<close> sends no \<open>model\<close> property (it reads as
  \<open>undefined\<close>) and always the configured count and size.
\<close>

definition imageGenerateParams ::
  "source_file \<Rightarrow> env \<Rightarrow> ISettings \<Rightarrow> string \<Rightarrow> ImageGenerationBrainPrompt \<Rightarrow> string
   \<Rightarrow> ImageGenerateParams" where
  "imageGenerateParams src ev s sender p responseFormat =
     (case src of
        Brain_ts \<Rightarrow>
          \<lparr>image_model = JUndefined,
           prompt = trim (imageMessage p),
           n = parseInt ev (imageGenerationCount s),
           size = imageGenerationSize s,
           user = sender,
           response_format = responseFormat\<rparr>
      | Part_000 \<Rightarrow>
          let model = js_lookup imageModels (propertyKey (imageGenerationModel s)) in
          \<lparr>image_model = model,
           prompt = trim (imageMessage p),
           n = (if model = JString ''dall-e-3'' then Some 1
                else parseInt ev (imageGenerationCount s)),
           size = (if model = JString ''dall-e-3'' then Size1024x1024
                   else imageGenerationSize s),
           user = sender,
           response_format = responseFormat\<rparr>)"

text \<open>
  The loop \<open>for (const url of urls)\<close>: \<open>atts\<close> is the array \<open>attachments\<close> built so
  far, \<open>fetched\<close> the fetches made so far.
\<close>

fun parseAttachments ::
  "env \<Rightarrow> string \<Rightarrow> ResponseFile list \<Rightarrow> call list \<Rightarrow> string option list
   \<Rightarrow> (error + ResponseFile list) \<times> call list" where
  "parseAttachments ev expected atts fetched [] = (Inr atts, fetched)"
| "parseAttachments ev expected atts fetched (u # urls) =
     (if expected = ''binary'' then
        (case fetchBuffer ev u of
           Inl e \<Rightarrow> (Inl e, fetched @ [Fetch u])
         | Inr buffer \<Rightarrow>
             parseAttachments ev expected
               (atts @ [\<lparr>data = BufferData buffer, fileType = ''image'',
                         responseMimeType = ''image/png''\<rparr>])
               (fetched @ [Fetch u]) urls)
      else
        parseAttachments ev expected
          (atts @ [\<lparr>data = StringData u, fileType = ''image'',
                    responseMimeType = ''image/png''\<rparr>])
          fetched urls)"

definition generateImage ::
  "source_file \<Rightarrow> env \<Rightarrow> MyBrainService \<Rightarrow> ImageGenerationBrainPrompt list
   \<Rightarrow> IBrainPromptContext \<Rightarrow> BrainPromptResponse run" where
  "generateImage src ev this prompts ctx =
     (let lastOfPrompts = (if prompts = [] then None else Some (last prompts));
          validationResult = validateSettings src (settings ctx)
      in
      if \<not> success validationResult then
        (Inr \<lparr>result = getMessage ev validationResult, responseAttachments = None,
              validationResult = validationResult\<rparr>, this, [])
      else
        (case lastOfPrompts of
           None \<Rightarrow> (Inl TypeError, this, [])
         | Some p \<Rightarrow>
             (case settings ctx of
                None \<Rightarrow> (Inl TypeError, this, [])
              | Some s \<Rightarrow>
                  let responseFormat =
                        (if expectedResponseType p = ''base64'' then ''b64_json'' else ''url'');
                      params = imageGenerateParams src ev s (senderId ctx) p responseFormat;
                      (client, this') = getClient this s
                  in (case imagesGenerate ev client params of
                        Inl e \<Rightarrow> (Inl e, this', [ImagesGenerate client params])
                      | Inr images \<Rightarrow>
                          let urls = map (\<lambda>d. if responseFormat = ''url'' then url d
                                               else b64_json d) images;
                              (parsed, fetches) =
                                parseAttachments ev (expectedResponseType p) [] [] urls
                          in (case parsed of
                                Inl e \<Rightarrow>
                                  (Inl e, this', ImagesGenerate client params # fetches)
                              | Inr atts \<Rightarrow>
                                  (Inr \<lparr>result = [], responseAttachments = Some atts,
                                        validationResult = validationResult\<rparr>,
                                   this', ImagesGenerate client params # fetches))))))"

section \<open>Text prompts\<close>

definition textModels :: "source_file \<Rightarrow> (string \<times> string) list" where
  "textModels src =
     (case src of
        Brain_ts \<Rightarrow>
          [(''GPT 4'', ''gpt-4-1106-preview''), (''GPT 3.5'', ''gpt-3.5-turbo''),
           (''vision'', ''gpt-4-vision-preview'')]
      | Part_000 \<Rightarrow>
          [(''GPT 4o'', ''gpt-4o''), (''GPT 4o-mini'', ''gpt-4o-mini''),
           (''vision'', ''gpt-4o-mini'')])"

text \<open>
  \<open>message.attachments?.filter((a) => a.mimeType.startsWith('image/')).length\<close>:
  \<open>undefined\<close> (\<open>None\<close>) when the turn has no \<open>attachments\<close> property.
\<close>

definition imageAttachmentCount :: "TextBrainPrompt \<Rightarrow> nat option" where
  "imageAttachmentCount m =
     (case attachments m of
        None \<Rightarrow> None
      | Some as \<Rightarrow> Some (length (filter (\<lambda>a. startsWith (mimeType a) ''image/'') as)))"

text \<open>A count used as a condition: \<open>undefined\<close> and \<open>0\<close> are falsy.\<close>

definition truthyCount :: "nat option \<Rightarrow> bool" where
  "truthyCount c = (case c of None \<Rightarrow> False | Some k \<Rightarrow> k \<noteq> 0)"

definition convertImageAttachmentToBase64 :: "env \<Rightarrow> FileAttachment \<Rightarrow> error + string" where
  "convertImageAttachmentToBase64 ev attachment =
     (case readFileBase64 ev (path attachment) of
        Inl e \<Rightarrow> Inl e
      | Inr imageBase64 \<Rightarrow> Inr (''data:'' @ mimeType attachment @ '';base64,'' @ imageBase64))"

text \<open>
  The closure \<open>getMessageContent\<close> of \<open>sendTextPrompt\<close>, with the variables it
  captures as arguments: the collaborators, the settings and \<open>lastPrompt\<close>, which is
  \<open>undefined\<close> when the windowed list is empty (reading its \<open>message\<close> then throws).
\<close>

definition imagePart ::
  "env \<Rightarrow> ISettings \<Rightarrow> TextBrainPrompt option \<Rightarrow> TextBrainPrompt \<Rightarrow> FileAttachment
   \<Rightarrow> error + ChatCompletionContentPart" where
  "imagePart ev s lastPrompt msg m =
     (case convertImageAttachmentToBase64 ev m of
        Inl e \<Rightarrow> Inl e
      | Inr dataUrl \<Rightarrow>
          (case lastPrompt of
             None \<Rightarrow> Inl TypeError
           | Some lp \<Rightarrow>
               Inr (ImageUrlPart dataUrl
                      (if message msg = message lp then imageDetail s else Low))))"

definition getMessageContent ::
  "env \<Rightarrow> ISettings \<Rightarrow> TextBrainPrompt option \<Rightarrow> TextBrainPrompt \<Rightarrow> error + MessageContent" where
  "getMessageContent ev s lastPrompt msg =
     (if \<not> truthyCount (imageAttachmentCount msg) \<or> role msg = ''brain'' then
        Inr (PlainText (message msg))
      else
        (case attachments msg of
           None \<Rightarrow> Inl TypeError
         | Some as \<Rightarrow>
             (case mapE (imagePart ev s lastPrompt msg) as of
                Inl e \<Rightarrow> Inl e
              | Inr imageParts \<Rightarrow> Inr (Parts ([TextPart (message msg)] @ imageParts)))))"

definition chatMessage ::
  "env \<Rightarrow> ISettings \<Rightarrow> TextBrainPrompt option \<Rightarrow> TextBrainPrompt \<Rightarrow> error + ChatMessage" where
  "chatMessage ev s lastPrompt m =
     (case getMessageContent ev s lastPrompt m of
        Inl e \<Rightarrow> Inl e
      | Inr c \<Rightarrow>
          Inr \<lparr>message_role = (if role m = ''brain'' then ''assistant'' else role m),
               content = c\<rparr>)"

definition sendTextPrompt ::
  "source_file \<Rightarrow> env \<Rightarrow> MyBrainService \<Rightarrow> TextBrainPrompt list \<Rightarrow> IBrainPromptContext
   \<Rightarrow> BrainPromptResponse run" where
  "sendTextPrompt src ev this prompts ctx =
     (let validationResult = validateSettings src (settings ctx) in
      if \<not> success validationResult then
        (Inr \<lparr>result = getMessage ev validationResult, responseAttachments = None,
              validationResult = validationResult\<rparr>, this, [])
      else
        (case settings ctx of
           None \<Rightarrow> (Inl TypeError, this, [])
         | Some s \<Rightarrow>
             let maxCharacters =
                   (case maxCharactersHistorySize s of None \<Rightarrow> 3000 | Some b \<Rightarrow> b);
                 messagesTruncated = truncateStringList prompts maxCharacters;
                 lastPrompt =
                   (if messagesTruncated = [] then None else Some (last messagesTruncated));
                 hasImageAttached =
                   length (filter (\<lambda>m. truthyCount (imageAttachmentCount m)) messagesTruncated)
             in (case mapE (chatMessage ev s lastPrompt) messagesTruncated of
                   Inl e \<Rightarrow> (Inl e, this, [])
                 | Inr msgs \<Rightarrow>
                     let params =
                           \<lparr>model =
                              (if hasImageAttached \<noteq> 0 then js_lookup (textModels src) ''vision''
                               else js_lookup (textModels src) (propertyKey (textModel s))),
                            messages = msgs,
                            max_tokens = maxCharacters\<rparr>;
                         (client, this') = getClient this s
                     in (case chatCompletionsCreate ev client params of
                           Inl e \<Rightarrow> (Inl e, this', [ChatCompletionsCreate client params])
                         | Inr choices \<Rightarrow>
                             (case choices of
                                [] \<Rightarrow>
                                  (Inl TypeError, this', [ChatCompletionsCreate client params])
                              | None # _ \<Rightarrow>
                                  (Inl TypeError, this', [ChatCompletionsCreate client params])
                              | Some text # _ \<Rightarrow>
                                  (Inr \<lparr>result = trim text, responseAttachments = None,
                                        validationResult = validationResult\<rparr>,
                                   this', [ChatCompletionsCreate client params]))))))"

section \<open>Concrete inputs\<close>

text \<open>
  A concrete set of collaborators: a rendering of validation errors, a parser of
  decimal digit strings, a disk on which one file is missing, and a provider that
  answers every request (two images per generation, in the format asked for).
\<close>

definition decimalDigits :: "string \<Rightarrow> int option" where
  "decimalDigits s =
     (if s \<noteq> [] \<and> list_all (\<lambda>c. c \<in> set ''0123456789'') s
      then Some (foldl (\<lambda>a c. 10 * a + (int (of_char c) - 48)) 0 s)
      else None)"

definition sample_env :: env where
  "sample_env =
     \<lparr>getMessage = (\<lambda>v. concat (errors v) @ concat (map snd (fieldErrors v))),
      parseInt = decimalDigits,
      readFileBase64 =
        (\<lambda>p. if p = ''/tmp/missing.png'' then Inl (FileError p) else Inr ''iVBORw0KGgo=''),
      transcriptionsCreate = (\<lambda>c p. Inr ''ola mundo''),
      imagesGenerate =
        (\<lambda>c p. if response_format p = ''url''
               then Inr [\<lparr>url = Some ''https://cdn.example/a.png'', b64_json = None\<rparr>,
                         \<lparr>url = Some ''https://cdn.example/b.png'', b64_json = None\<rparr>]
               else Inr [\<lparr>url = None, b64_json = Some ''QUFB''\<rparr>,
                         \<lparr>url = None, b64_json = Some ''QkJC''\<rparr>]),
      chatCompletionsCreate = (\<lambda>c p. Inr [Some '' It is a cat. '']),
      fetchBuffer =
        (\<lambda>u. case u of None \<Rightarrow> Inl TypeError | Some a \<Rightarrow> Inr (''PNG '' @ a))\<rparr>"

definition sample_settings :: ISettings where
  "sample_settings =
     \<lparr>apiKey = Some ''sk-0123456789'',
      textModel = Some ''GPT 4o'',
      audioTranscriberModel = Some ''whisper-1'',
      audioTranscriberDefaultLanguage = Some ''pt'',
      imageGenerationSize = Size512x512,
      imageGenerationCount = ''2'',
      maxCharactersHistorySize = Some 3000,
      imageDetail = High,
      imageGenerationModel = Some ''Dall-E 3''\<rparr>"

definition sample_context :: IBrainPromptContext where
  "sample_context = \<lparr>settings = Some sample_settings, senderId = ''user-1''\<rparr>"

definition short_key_context :: IBrainPromptContext where
  "short_key_context =
     \<lparr>settings = Some (sample_settings\<lparr>apiKey := Some ''sk-12''\<rparr>), senderId = ''user-1''\<rparr>"

definition fresh_service :: MyBrainService where
  "fresh_service = \<lparr>openAI = None, currentKey = None, constructed = 0\<rparr>"

text \<open>Turns with attachments: a picture, a document, and both.\<close>

definition cat_png :: FileAttachment where
  "cat_png = \<lparr>path = ''/tmp/cat.png'', mimeType = ''image/png''\<rparr>"

definition dog_png :: FileAttachment where
  "dog_png = \<lparr>path = ''/tmp/dog.png'', mimeType = ''image/png''\<rparr>"

definition notes_pdf :: FileAttachment where
  "notes_pdf = \<lparr>path = ''/tmp/notes.pdf'', mimeType = ''application/pdf''\<rparr>"

definition turn_with :: "string \<Rightarrow> string \<Rightarrow> FileAttachment list \<Rightarrow> TextBrainPrompt" where
  "turn_with r t as = \<lparr>role = r, message = t, attachments = Some as\<rparr>"

definition context_with_textModel :: "string option \<Rightarrow> IBrainPromptContext" where
  "context_with_textModel label =
     \<lparr>settings = Some (sample_settings\<lparr>textModel := label\<rparr>), senderId = ''user-1''\<rparr>"

section \<open>Properties of the windowing\<close>

lemma joined_length: "int (length (concat (map message lst))) = totalLength lst"
  by (induction lst) (simp_all add: totalLength_def)

lemma totalLength_Cons:
  "totalLength (m # lst) = int (length (message m)) + totalLength lst"
  by (simp add: totalLength_def)

lemma truncate_while_stop:
  "\<not> (t > maxC \<and> length lst > 1) \<Longrightarrow> truncate_while t maxC lst = lst"
  by (subst truncate_while.simps) auto

lemma truncate_while_step:
  "t > maxC \<Longrightarrow> rest \<noteq> [] \<Longrightarrow>
   truncate_while t maxC (firstItem # rest)
   = truncate_while (t - int (length (message firstItem))) maxC rest"
  by (subst truncate_while.simps) simp

lemma truncate_while_drop:
  "\<exists>k. truncate_while t maxC lst = drop k lst"
proof (induction t maxC lst rule: truncate_while.induct)
  case (1 t maxC lst)
  show ?case
  proof (cases "t > maxC \<and> length lst > 1")
    case False
    then have "truncate_while t maxC lst = drop 0 lst"
      by (simp add: truncate_while_stop)
    then show ?thesis by blast
  next
    case True
    then obtain firstItem rest where l: "lst = firstItem # rest" and r: "rest \<noteq> []"
      by (cases lst) auto
    from "1.IH" [OF True l] obtain k
      where "truncate_while (t - int (length (message firstItem))) maxC rest = drop k rest"
      by blast
    with True l r have "truncate_while t maxC lst = drop (Suc k) lst"
      by (simp add: truncate_while_step)
    then show ?thesis by blast
  qed
qed

lemma truncate_while_bound:
  "t = totalLength lst \<Longrightarrow> lst \<noteq> [] \<Longrightarrow>
   totalLength (truncate_while t maxC lst) \<le> maxC \<or> length (truncate_while t maxC lst) = 1"
proof (induction t maxC lst rule: truncate_while.induct)
  case (1 t maxC lst)
  show ?case
  proof (cases "t > maxC \<and> length lst > 1")
    case False
    then have eq: "truncate_while t maxC lst = lst"
      by (rule truncate_while_stop)
    from False "1.prems" show ?thesis
      unfolding eq by (cases lst) auto
  next
    case True
    then obtain firstItem rest where l: "lst = firstItem # rest" and r: "rest \<noteq> []"
      by (cases lst) auto
    have t': "t - int (length (message firstItem)) = totalLength rest"
      using "1.prems"(1) l by (simp add: totalLength_Cons)
    have eq: "truncate_while t maxC lst
              = truncate_while (t - int (length (message firstItem))) maxC rest"
      using True l r by (simp add: truncate_while_step)
    from "1.IH" [OF True l t' r] show ?thesis
      by (simp only: eq)
  qed
qed

lemma truncateStringList_scenario:
  assumes len: "length lst = 5" and each: "\<forall>m\<in>set lst. length (message m) = 1000"
  shows "truncateStringList lst 3000 = drop 2 lst"
proof -
  from len obtain a b c d e where l: "lst = [a, b, c, d, e]"
    by (auto simp: length_Suc_conv eval_nat_numeral)
  from each l have m: "length (message a) = 1000" "length (message b) = 1000"
    "length (message c) = 1000" "length (message d) = 1000" "length (message e) = 1000"
    by simp_all
  have "truncateStringList lst 3000 = truncate_while 5000 3000 [a, b, c, d, e]"
    by (simp add: truncateStringList_def l m)
  also have "\<dots> = truncate_while 4000 3000 [b, c, d, e]"
    by (simp add: truncate_while_step m)
  also have "\<dots> = truncate_while 3000 3000 [c, d, e]"
    by (simp add: truncate_while_step m)
  also have "\<dots> = [c, d, e]"
    by (simp add: truncate_while_stop)
  finally show ?thesis by (simp add: l)
qed

text \<open>
  C1: for a turn list with more than 2 elements, \<open>truncateStringList\<close> returns the whole
  list when the total message length is at most the budget; otherwise it returns a
  suffix \<open>drop k lst\<close> of the input (contiguous, in the input's order) whose total
  message length is at most the budget or which has exactly one turn. For every history
  of 5 turns of 1000 characters and the budget 3000 the result is the last 3 turns.
\<close>

theorem truncateStringList_window:
  assumes "length lst > 2"
  shows "(totalLength lst \<le> maxCharacters \<longrightarrow> truncateStringList lst maxCharacters = lst)
       \<and> (totalLength lst > maxCharacters \<longrightarrow>
            (\<exists>k. truncateStringList lst maxCharacters = drop k lst)
            \<and> (totalLength (truncateStringList lst maxCharacters) \<le> maxCharacters
               \<or> length (truncateStringList lst maxCharacters) = 1))
       \<and> (length lst = 5 \<and> (\<forall>m\<in>set lst. length (message m) = 1000)
            \<and> maxCharacters = 3000 \<longrightarrow>
            truncateStringList lst maxCharacters = drop 2 lst)"
proof -
  from assms have ne: "lst \<noteq> []" by auto
  from assms have unf: "truncateStringList lst maxCharacters
                        = truncate_while (totalLength lst) maxCharacters lst"
    by (simp add: truncateStringList_def joined_length)
  have full: "totalLength lst \<le> maxCharacters \<longrightarrow> truncateStringList lst maxCharacters = lst"
    by (simp add: unf truncate_while_stop)
  have suffix: "\<exists>k. truncateStringList lst maxCharacters = drop k lst"
    unfolding unf by (rule truncate_while_drop)
  have bound: "totalLength (truncateStringList lst maxCharacters) \<le> maxCharacters
               \<or> length (truncateStringList lst maxCharacters) = 1"
    unfolding unf by (rule truncate_while_bound [OF refl ne])
  have scen: "length lst = 5 \<and> (\<forall>m\<in>set lst. length (message m) = 1000)
              \<and> maxCharacters = 3000 \<longrightarrow> truncateStringList lst maxCharacters = drop 2 lst"
    using truncateStringList_scenario by blast
  from full suffix bound scen show ?thesis by blast
qed

theorem truncateStringList_window_witness:
  "length history5 > 2
   \<and> totalLength history5 > 3000
   \<and> length history5 = 5 \<and> list_all (\<lambda>m. length (message m) = 1000) history5
   \<and> truncateStringList history5 3000 = map turn1000 ''cde''
   \<and> totalLength (truncateStringList history5 3000) \<le> 3000
   \<and> totalLength history5 \<le> 5000
   \<and> truncateStringList history5 5000 = history5
   \<and> totalLength history5 > 10
   \<and> length (truncateStringList history5 10) = 1"
  using truncateStringList_window [of history5 3000]
        truncateStringList_window [of history5 5000]
        truncateStringList_window [of history5 10]
  by (simp add: history5_def turn1000_def totalLength_def truncateStringList_def
        truncate_while.simps)

text \<open>
  C6: a turn list with 2 or fewer elements is returned unchanged, whatever the budget
  (also a budget smaller than every message, zero or negative).
\<close>

theorem truncateStringList_short_unchanged:
  "length lst \<le> 2 \<Longrightarrow> truncateStringList lst maxCharacters = lst"
  by (simp add: truncateStringList_def)

theorem truncateStringList_short_unchanged_witness:
  "length [\<lparr>role = ''user'', message = ''hello world'', attachments = None\<rparr>,
           \<lparr>role = ''brain'', message = ''hi, how can I help?'', attachments = None\<rparr>] \<le> 2
   \<and> truncateStringList
        [\<lparr>role = ''user'', message = ''hello world'', attachments = None\<rparr>,
         \<lparr>role = ''brain'', message = ''hi, how can I help?'', attachments = None\<rparr>] (-5)
     = [\<lparr>role = ''user'', message = ''hello world'', attachments = None\<rparr>,
        \<lparr>role = ''brain'', message = ''hi, how can I help?'', attachments = None\<rparr>]"
  using truncateStringList_short_unchanged
    [of "[\<lparr>role = ''user'', message = ''hello world'', attachments = None\<rparr>,
          \<lparr>role = ''brain'', message = ''hi, how can I help?'', attachments = None\<rparr>]" "-5"]
  by simp

section \<open>Properties of the client cache\<close>

text \<open>
  C9: \<open>getClient\<close> constructs a new client exactly when no client is cached or the
  cached credential differs, as a value, from the credential of the settings; otherwise
  the service is left as it was and the cached client is returned. After the call the
  cached credential is the settings' credential, and the cached client is the one
  returned.
\<close>

theorem getClient_cache:
  "((openAI this = None \<or> currentKey this \<noteq> apiKey s)
      \<longleftrightarrow> constructed (snd (getClient this s)) = Suc (constructed this))
   \<and> (openAI this = None \<or> currentKey this \<noteq> apiKey s \<longrightarrow>
        fst (getClient this s) = \<lparr>clientId = constructed this, clientApiKey = apiKey s\<rparr>)
   \<and> (\<not> (openAI this = None \<or> currentKey this \<noteq> apiKey s) \<longrightarrow>
        snd (getClient this s) = this \<and> openAI this = Some (fst (getClient this s)))
   \<and> currentKey (snd (getClient this s)) = apiKey s
   \<and> openAI (snd (getClient this s)) = Some (fst (getClient this s))"
  by (cases "openAI this") (auto simp: getClient_def newOpenAI_def)

theorem getClient_cache_witness:
  "openAI fresh_service = None
   \<and> getClient fresh_service sample_settings
     = (\<lparr>clientId = 0, clientApiKey = Some ''sk-0123456789''\<rparr>,
        \<lparr>openAI = Some \<lparr>clientId = 0, clientApiKey = Some ''sk-0123456789''\<rparr>,
         currentKey = Some ''sk-0123456789'', constructed = 1\<rparr>)
   \<and> getClient (snd (getClient fresh_service sample_settings)) sample_settings
     = (\<lparr>clientId = 0, clientApiKey = Some ''sk-0123456789''\<rparr>,
        snd (getClient fresh_service sample_settings))
   \<and> currentKey (snd (getClient fresh_service sample_settings))
     \<noteq> apiKey (sample_settings\<lparr>apiKey := Some ''sk-9876543210''\<rparr>)
   \<and> getClient (snd (getClient fresh_service sample_settings))
        (sample_settings\<lparr>apiKey := Some ''sk-9876543210''\<rparr>)
     = (\<lparr>clientId = 1, clientApiKey = Some ''sk-9876543210''\<rparr>,
        \<lparr>openAI = Some \<lparr>clientId = 1, clientApiKey = Some ''sk-9876543210''\<rparr>,
         currentKey = Some ''sk-9876543210'', constructed = 2\<rparr>)"
  using getClient_cache [of fresh_service sample_settings]
        getClient_cache [of "snd (getClient fresh_service sample_settings)" sample_settings]
        getClient_cache [of "snd (getClient fresh_service sample_settings)"
                            "sample_settings\<lparr>apiKey := Some ''sk-9876543210''\<rparr>"]
  by (simp add: getClient_def newOpenAI_def fresh_service_def sample_settings_def)

section \<open>Properties of the settings validation\<close>

lemma content_text_nonempty: "content_text \<noteq> []"
  by (simp add: content_text_def)

lemma validateSettings_success:
  "success (validateSettings src st)
   \<longleftrightarrow> (\<exists>s k. st = Some s \<and> apiKey s = Some k \<and> 10 \<le> length k)"
  by (cases src)
     (auto simp: validateSettings_def Let_def success_def newValidation_def addError_def
        addFieldError_def split: option.splits)

lemma validateSettings_failure:
  assumes "\<not> success (validateSettings src st)"
  shows "validateSettings src st
         = (case src of
              Brain_ts \<Rightarrow>
                \<lparr>errors = [], fieldErrors = [(''apiKey'', ''API key format is invalid'')]\<rparr>
            | Part_000 \<Rightarrow> \<lparr>errors = [content_text], fieldErrors = []\<rparr>)"
  using assms
  by (cases src)
     (auto simp: validateSettings_def Let_def success_def newValidation_def addError_def
        addFieldError_def split: option.splits if_splits)

text \<open>
  C5: when the settings are absent, or the credential is absent or shorter than 10
  characters, \<open>validateSettings\<close> is unsuccessful and each of \<open>sendTextPrompt\<close>,
  \<open>transcribeAudio\<close> and \<open>generateImage\<close> returns at once: it makes no call, leaves
  the service (and its client cache) untouched, and its envelope has no attachments
  and carries as \<open>result\<close> the SDK's rendering of the validation result. That validation
  result records one non-empty explanation, so the \<open>result\<close> is non-empty for every
  \<open>getMessage\<close> that renders a validation with a non-empty recorded message as
  non-empty text.
\<close>

theorem invalid_credential_short_circuits:
  assumes "settings ctx = None
           \<or> (\<exists>s. settings ctx = Some s
                   \<and> (apiKey s = None \<or> (\<exists>k. apiKey s = Some k \<and> length k < 10)))"
  shows "\<not> success (validateSettings src (settings ctx))
    \<and> sendTextPrompt src ev this prompts ctx
      = (Inr \<lparr>result = getMessage ev (validateSettings src (settings ctx)),
              responseAttachments = None,
              validationResult = validateSettings src (settings ctx)\<rparr>, this, [])
    \<and> transcribeAudio src ev this audio ctx
      = (Inr \<lparr>result = getMessage ev (validateSettings src (settings ctx)),
              responseAttachments = None,
              validationResult = validateSettings src (settings ctx)\<rparr>, this, [])
    \<and> generateImage src ev this imagePrompts ctx
      = (Inr \<lparr>result = getMessage ev (validateSettings src (settings ctx)),
              responseAttachments = None,
              validationResult = validateSettings src (settings ctx)\<rparr>, this, [])
    \<and> (\<exists>m \<in> set (errors (validateSettings src (settings ctx)))
              \<union> snd ` set (fieldErrors (validateSettings src (settings ctx))). m \<noteq> [])
    \<and> ((\<forall>v. (\<exists>m \<in> set (errors v) \<union> snd ` set (fieldErrors v). m \<noteq> [])
              \<longrightarrow> getMessage ev v \<noteq> [])
        \<longrightarrow> getMessage ev (validateSettings src (settings ctx)) \<noteq> [])"
proof -
  have fail: "\<not> success (validateSettings src (settings ctx))"
    using assms by (auto simp: validateSettings_success)
  have chat: "sendTextPrompt src ev this prompts ctx
      = (Inr \<lparr>result = getMessage ev (validateSettings src (settings ctx)),
              responseAttachments = None,
              validationResult = validateSettings src (settings ctx)\<rparr>, this, [])"
    using fail by (simp add: sendTextPrompt_def Let_def)
  have audio: "transcribeAudio src ev this audio ctx
      = (Inr \<lparr>result = getMessage ev (validateSettings src (settings ctx)),
              responseAttachments = None,
              validationResult = validateSettings src (settings ctx)\<rparr>, this, [])"
    using fail by (simp add: transcribeAudio_def Let_def)
  have image: "generateImage src ev this imagePrompts ctx
      = (Inr \<lparr>result = getMessage ev (validateSettings src (settings ctx)),
              responseAttachments = None,
              validationResult = validateSettings src (settings ctx)\<rparr>, this, [])"
    using fail by (simp add: generateImage_def Let_def)
  have recorded: "\<exists>m \<in> set (errors (validateSettings src (settings ctx)))
              \<union> snd ` set (fieldErrors (validateSettings src (settings ctx))). m \<noteq> []"
    using validateSettings_failure [OF fail]
    by (cases src) (simp_all add: content_text_nonempty)
  from fail chat audio image recorded show ?thesis by blast
qed

theorem invalid_credential_short_circuits_witness:
  "(\<exists>s. settings short_key_context = Some s \<and> apiKey s = Some ''sk-12'')
   \<and> length ''sk-12'' = 5
   \<and> \<not> success (validateSettings Part_000 (settings short_key_context))
   \<and> sendTextPrompt Part_000 sample_env fresh_service history5 short_key_context
     = (Inr \<lparr>result = content_text, responseAttachments = None,
             validationResult = \<lparr>errors = [content_text], fieldErrors = []\<rparr>\<rparr>,
        fresh_service, [])
   \<and> transcribeAudio Brain_ts sample_env fresh_service
        \<lparr>audioFilePath = ''/tmp/a.wav'', language = None\<rparr> short_key_context
     = (Inr \<lparr>result = ''API key format is invalid'', responseAttachments = None,
             validationResult =
               \<lparr>errors = [], fieldErrors = [(''apiKey'', ''API key format is invalid'')]\<rparr>\<rparr>,
        fresh_service, [])
   \<and> generateImage Part_000 sample_env fresh_service
        [\<lparr>imageMessage = ''a cat'', expectedResponseType = ''url''\<rparr>] short_key_context
     = (Inr \<lparr>result = content_text, responseAttachments = None,
             validationResult = \<lparr>errors = [content_text], fieldErrors = []\<rparr>\<rparr>,
        fresh_service, [])
   \<and> getMessage sample_env (validateSettings Part_000 (settings short_key_context)) \<noteq> []"
proof -
  have hyp: "settings short_key_context = None
           \<or> (\<exists>s. settings short_key_context = Some s
                   \<and> (apiKey s = None \<or> (\<exists>k. apiKey s = Some k \<and> length k < 10)))"
    by (simp add: short_key_context_def sample_settings_def)
  have render: "\<forall>v. (\<exists>m \<in> set (errors v) \<union> snd ` set (fieldErrors v). m \<noteq> [])
                  \<longrightarrow> getMessage sample_env v \<noteq> []"
    by (auto simp: sample_env_def)
  have p0: "validateSettings Part_000 (settings short_key_context)
            = \<lparr>errors = [content_text], fieldErrors = []\<rparr>"
    by (simp add: validateSettings_def Let_def short_key_context_def sample_settings_def
          newValidation_def addError_def)
  have b: "validateSettings Brain_ts (settings short_key_context)
            = \<lparr>errors = [], fieldErrors = [(''apiKey'', ''API key format is invalid'')]\<rparr>"
    by (simp add: validateSettings_def Let_def short_key_context_def sample_settings_def
          newValidation_def addFieldError_def)
  have m0: "getMessage sample_env \<lparr>errors = [content_text], fieldErrors = []\<rparr> = content_text"
    by (simp add: sample_env_def)
  have m1: "getMessage sample_env
              \<lparr>errors = [], fieldErrors = [(''apiKey'', ''API key format is invalid'')]\<rparr>
            = ''API key format is invalid''"
    by (simp add: sample_env_def)
  have k: "\<exists>s. settings short_key_context = Some s \<and> apiKey s = Some ''sk-12''"
    by (simp add: short_key_context_def sample_settings_def)
  show ?thesis
    using invalid_credential_short_circuits
            [OF hyp, of Part_000 sample_env fresh_service history5
               "\<lparr>audioFilePath = ''/tmp/a.wav'', language = None\<rparr>"
               "[\<lparr>imageMessage = ''a cat'', expectedResponseType = ''url''\<rparr>]"]
          invalid_credential_short_circuits
            [OF hyp, of Brain_ts sample_env fresh_service history5
               "\<lparr>audioFilePath = ''/tmp/a.wav'', language = None\<rparr>"
               "[\<lparr>imageMessage = ''a cat'', expectedResponseType = ''url''\<rparr>]"]
          render k
    by (simp only: p0 b m0 m1) simp
qed

section \<open>Properties of the transcription request\<close>

text \<open>
  C10: a transcription call that passes validation makes exactly one call, the
  transcription request, and its \<open>language\<close> is the prompt's language when that is
  a non-empty string, else the settings' \<open>audioTranscriberDefaultLanguage\<close> when that
  is a non-empty string, else \<open>'en'\<close>.
\<close>

theorem transcribeAudio_language:
  assumes "success (validateSettings src (settings ctx))"
  shows "\<exists>s client params.
           settings ctx = Some s
         \<and> snd (snd (transcribeAudio src ev this p ctx)) = [TranscriptionsCreate client params]
         \<and> (\<forall>l. language p = Some l \<and> l \<noteq> [] \<longrightarrow> params_language params = l)
         \<and> (language p = None \<or> language p = Some [] \<longrightarrow>
              (\<forall>d. audioTranscriberDefaultLanguage s = Some d \<and> d \<noteq> []
                   \<longrightarrow> params_language params = d)
              \<and> (audioTranscriberDefaultLanguage s = None
                   \<or> audioTranscriberDefaultLanguage s = Some []
                   \<longrightarrow> params_language params = ''en''))"
proof -
  from assms obtain s where s: "settings ctx = Some s"
    by (auto simp: validateSettings_success)
  obtain client this' where c: "getClient this s = (client, this')"
    by (cases "getClient this s")
  define params where "params =
     \<lparr>audio_file = audioFilePath p,
      params_language =
        js_or_literal (js_or (language p) (audioTranscriberDefaultLanguage s)) ''en'',
      audio_model = audioTranscriberModel s\<rparr>"
  have calls: "snd (snd (transcribeAudio src ev this p ctx))
               = [TranscriptionsCreate client params]"
    using assms s c
    by (cases "transcriptionsCreate ev client params")
       (simp_all add: transcribeAudio_def Let_def params_def)
  have lang: "(\<forall>l. language p = Some l \<and> l \<noteq> [] \<longrightarrow> params_language params = l)
         \<and> (language p = None \<or> language p = Some [] \<longrightarrow>
              (\<forall>d. audioTranscriberDefaultLanguage s = Some d \<and> d \<noteq> []
                   \<longrightarrow> params_language params = d)
              \<and> (audioTranscriberDefaultLanguage s = None
                   \<or> audioTranscriberDefaultLanguage s = Some []
                   \<longrightarrow> params_language params = ''en''))"
    by (auto simp: params_def js_or_literal_def js_or_def truthy_def)
  from s calls lang show ?thesis by blast
qed

theorem transcribeAudio_language_witness:
  "success (validateSettings Part_000 (settings sample_context))
   \<and> transcribeAudio Part_000 sample_env fresh_service
        \<lparr>audioFilePath = ''/tmp/a.wav'', language = Some ''fr''\<rparr> sample_context
     = (Inr \<lparr>result = ''ola mundo'', responseAttachments = None,
             validationResult = \<lparr>errors = [], fieldErrors = []\<rparr>\<rparr>,
        \<lparr>openAI = Some \<lparr>clientId = 0, clientApiKey = Some ''sk-0123456789''\<rparr>,
         currentKey = Some ''sk-0123456789'', constructed = 1\<rparr>,
        [TranscriptionsCreate \<lparr>clientId = 0, clientApiKey = Some ''sk-0123456789''\<rparr>
           \<lparr>audio_file = ''/tmp/a.wav'', params_language = ''fr'',
            audio_model = Some ''whisper-1''\<rparr>])
   \<and> snd (snd (transcribeAudio Part_000 sample_env fresh_service
        \<lparr>audioFilePath = ''/tmp/a.wav'', language = Some []\<rparr> sample_context))
     = [TranscriptionsCreate \<lparr>clientId = 0, clientApiKey = Some ''sk-0123456789''\<rparr>
           \<lparr>audio_file = ''/tmp/a.wav'', params_language = ''pt'',
            audio_model = Some ''whisper-1''\<rparr>]
   \<and> snd (snd (transcribeAudio Brain_ts sample_env fresh_service
        \<lparr>audioFilePath = ''/tmp/a.wav'', language = None\<rparr>
        (sample_context\<lparr>settings :=
           Some (sample_settings\<lparr>audioTranscriberDefaultLanguage := None\<rparr>)\<rparr>)))
     = [TranscriptionsCreate \<lparr>clientId = 0, clientApiKey = Some ''sk-0123456789''\<rparr>
           \<lparr>audio_file = ''/tmp/a.wav'', params_language = ''en'',
            audio_model = Some ''whisper-1''\<rparr>]"
proof -
  have ok: "success (validateSettings Part_000 (settings sample_context))"
    by (simp add: validateSettings_success sample_context_def sample_settings_def)
  show ?thesis
    using ok transcribeAudio_language [OF ok, of sample_env fresh_service
               "\<lparr>audioFilePath = ''/tmp/a.wav'', language = Some ''fr''\<rparr>"]
    by (simp add: transcribeAudio_def Let_def validateSettings_def newValidation_def
          success_def sample_context_def sample_settings_def sample_env_def
          fresh_service_def getClient_def newOpenAI_def js_or_literal_def js_or_def
          truthy_def)
qed

section \<open>Properties of the image-generation request\<close>

lemma generateImage_calls:
  assumes ok: "success (validateSettings src (settings ctx))"
    and s: "settings ctx = Some s"
    and ne: "prompts \<noteq> []"
    and c: "getClient this s = (client, this')"
  shows "\<exists>fetches.
           snd (snd (generateImage src ev this prompts ctx))
           = ImagesGenerate client
               (imageGenerateParams src ev s (senderId ctx) (last prompts)
                  (if expectedResponseType (last prompts) = ''base64'' then ''b64_json''
                   else ''url''))
             # fetches"
  using ok s ne c
  by (simp add: generateImage_def Let_def split: sum.splits prod.splits)

lemma imageModels_premium:
  "js_lookup imageModels (propertyKey k) = JString ''dall-e-3'' \<longleftrightarrow> k = Some ''Dall-E 3''"
  by (cases k)
     (auto simp: js_lookup_def imageModels_def propertyKey_def split: if_splits)

text \<open>
  C8: in \<open>part_000\<close>, a generation call that passes validation sends a request whose
  model is \<open>dall-e-3\<close> exactly when the configured \<open>imageGenerationModel\<close> is
  \<open>'Dall-E 3'\<close>. For that model the count is 1 and the size \<open>1024x1024\<close>, whatever
  \<open>imageGenerationCount\<close> and \<open>imageGenerationSize\<close> say; for every other model the
  count is \<open>Number.parseInt\<close> of the configured count and the size is the configured
  size.
\<close>

theorem generateImage_premium_overrides:
  assumes "success (validateSettings Part_000 (settings ctx))" and "prompts \<noteq> []"
  shows "\<exists>s client params fetches.
           settings ctx = Some s
         \<and> snd (snd (generateImage Part_000 ev this prompts ctx))
           = ImagesGenerate client params # fetches
         \<and> (image_model params = JString ''dall-e-3''
              \<longleftrightarrow> imageGenerationModel s = Some ''Dall-E 3'')
         \<and> (image_model params = JString ''dall-e-3''
              \<longrightarrow> n params = Some 1 \<and> size params = Size1024x1024)
         \<and> (image_model params \<noteq> JString ''dall-e-3''
              \<longrightarrow> n params = parseInt ev (imageGenerationCount s)
                \<and> size params = imageGenerationSize s)"
proof -
  from assms(1) obtain s where s: "settings ctx = Some s"
    by (auto simp: validateSettings_success)
  obtain client this' where c: "getClient this s = (client, this')"
    by (cases "getClient this s")
  define params where "params =
     imageGenerateParams Part_000 ev s (senderId ctx) (last prompts)
       (if expectedResponseType (last prompts) = ''base64'' then ''b64_json'' else ''url'')"
  from generateImage_calls [OF assms(1) s assms(2) c, of ev]
  obtain fetches where calls:
    "snd (snd (generateImage Part_000 ev this prompts ctx))
     = ImagesGenerate client params # fetches"
    unfolding params_def by blast
  have m: "image_model params = js_lookup imageModels (propertyKey (imageGenerationModel s))"
    by (simp add: params_def imageGenerateParams_def Let_def)
  have sel: "image_model params = JString ''dall-e-3''
              \<longleftrightarrow> imageGenerationModel s = Some ''Dall-E 3''"
    by (simp only: m imageModels_premium)
  have forced: "image_model params = JString ''dall-e-3''
              \<longrightarrow> n params = Some 1 \<and> size params = Size1024x1024"
    by (simp add: params_def imageGenerateParams_def Let_def)
  have configured: "image_model params \<noteq> JString ''dall-e-3''
              \<longrightarrow> n params = parseInt ev (imageGenerationCount s)
                \<and> size params = imageGenerationSize s"
    by (simp add: params_def imageGenerateParams_def Let_def)
  from s calls sel forced configured show ?thesis by blast
qed

theorem generateImage_premium_overrides_witness:
  "success (validateSettings Part_000 (settings sample_context))
   \<and> imageGenerationModel sample_settings = Some ''Dall-E 3''
   \<and> imageGenerationCount sample_settings = ''2''
   \<and> imageGenerationSize sample_settings = Size512x512
   \<and> snd (snd (generateImage Part_000 sample_env fresh_service
        [\<lparr>imageMessage = '' a cat '', expectedResponseType = ''url''\<rparr>] sample_context))
     = [ImagesGenerate \<lparr>clientId = 0, clientApiKey = Some ''sk-0123456789''\<rparr>
          \<lparr>image_model = JString ''dall-e-3'', prompt = ''a cat'', n = Some 1,
           size = Size1024x1024, user = ''user-1'', response_format = ''url''\<rparr>]
   \<and> snd (snd (generateImage Part_000 sample_env fresh_service
        [\<lparr>imageMessage = '' a cat '', expectedResponseType = ''url''\<rparr>]
        (sample_context\<lparr>settings :=
           Some (sample_settings\<lparr>imageGenerationModel := Some ''Dall-E 2''\<rparr>)\<rparr>)))
     = [ImagesGenerate \<lparr>clientId = 0, clientApiKey = Some ''sk-0123456789''\<rparr>
          \<lparr>image_model = JString ''dall-e-2'', prompt = ''a cat'', n = Some 2,
           size = Size512x512, user = ''user-1'', response_format = ''url''\<rparr>]"
proof -
  have ok: "success (validateSettings Part_000 (settings sample_context))"
    by (simp add: validateSettings_success sample_context_def sample_settings_def)
  have ne: "[\<lparr>imageMessage = '' a cat '', expectedResponseType = ''url''\<rparr>] \<noteq> []"
    by simp
  show ?thesis
    using ok generateImage_premium_overrides [OF ok ne, of sample_env fresh_service]
    by (simp add: generateImage_def Let_def validateSettings_def newValidation_def
          success_def sample_context_def sample_settings_def sample_env_def
          fresh_service_def getClient_def newOpenAI_def imageGenerateParams_def
          js_lookup_def imageModels_def propertyKey_def trim_def isWhiteSpace_def
          decimalDigits_def)
qed

section \<open>Properties of the message content\<close>

lemma mapE_all_Inr:
  "\<forall>x\<in>set xs. f x = Inr (g x) \<Longrightarrow> mapE f xs = Inr (map g xs)"
  by (induction xs) simp_all

lemma mapE_Inr_length: "mapE f xs = Inr ys \<Longrightarrow> length ys = length xs"
  by (induction xs arbitrary: ys) (auto split: sum.splits)

lemma truthyCount_imageAttachmentCount:
  "truthyCount (imageAttachmentCount m)
   \<longleftrightarrow> (\<exists>as. attachments m = Some as \<and> (\<exists>a\<in>set as. startsWith (mimeType a) ''image/''))"
  by (cases "attachments m")
     (auto simp: truthyCount_def imageAttachmentCount_def filter_empty_conv)

text \<open>
  C7: \<open>getMessageContent\<close> returns the plain message text, and no parts, when the turn
  has no attachment whose mimeType starts with \<open>image/\<close> or its role is \<open>brain\<close>.
  Otherwise it never returns plain text, and when the attached files can be read it
  returns the parts: first the text part with the message, then one image part per
  attachment of the turn, in the attachments' order, each a \<open>data:\<close> URL of the file.
\<close>

theorem getMessageContent_shape:
  "((\<forall>as. attachments msg = Some as \<longrightarrow> (\<forall>a\<in>set as. \<not> startsWith (mimeType a) ''image/''))
      \<or> role msg = ''brain''
      \<longrightarrow> getMessageContent ev s lastPrompt msg = Inr (PlainText (message msg)))
   \<and> (\<forall>as. attachments msg = Some as \<and> (\<exists>a\<in>set as. startsWith (mimeType a) ''image/'')
            \<and> role msg \<noteq> ''brain''
        \<longrightarrow> (\<forall>t. getMessageContent ev s lastPrompt msg \<noteq> Inr (PlainText t))
          \<and> (\<forall>lp b64. lastPrompt = Some lp
                \<and> (\<forall>a\<in>set as. readFileBase64 ev (path a) = Inr (b64 (path a)))
               \<longrightarrow> getMessageContent ev s lastPrompt msg
                   = Inr (Parts (TextPart (message msg)
                       # map (\<lambda>a. ImageUrlPart
                                (''data:'' @ mimeType a @ '';base64,'' @ b64 (path a))
                                (if message msg = message lp then imageDetail s else Low))
                           as))))"
proof -
  have plain: "(\<forall>as. attachments msg = Some as
                  \<longrightarrow> (\<forall>a\<in>set as. \<not> startsWith (mimeType a) ''image/''))
      \<or> role msg = ''brain''
      \<longrightarrow> getMessageContent ev s lastPrompt msg = Inr (PlainText (message msg))"
    by (auto simp: getMessageContent_def truthyCount_imageAttachmentCount)
  have parts: "(\<forall>t. getMessageContent ev s lastPrompt msg \<noteq> Inr (PlainText t))
          \<and> (\<forall>lp b64. lastPrompt = Some lp
                \<and> (\<forall>a\<in>set as. readFileBase64 ev (path a) = Inr (b64 (path a)))
               \<longrightarrow> getMessageContent ev s lastPrompt msg
                   = Inr (Parts (TextPart (message msg)
                       # map (\<lambda>a. ImageUrlPart
                                (''data:'' @ mimeType a @ '';base64,'' @ b64 (path a))
                                (if message msg = message lp then imageDetail s else Low))
                           as)))"
    if as: "attachments msg = Some as"
      and img: "\<exists>a\<in>set as. startsWith (mimeType a) ''image/''"
      and user: "role msg \<noteq> ''brain''" for as
  proof -
    from as img have cnt: "truthyCount (imageAttachmentCount msg)"
      by (auto simp: truthyCount_imageAttachmentCount)
    have unf: "getMessageContent ev s lastPrompt msg
               = (case mapE (imagePart ev s lastPrompt msg) as of
                    Inl e \<Rightarrow> Inl e
                  | Inr imageParts \<Rightarrow> Inr (Parts ([TextPart (message msg)] @ imageParts)))"
      using as cnt user by (simp add: getMessageContent_def)
    have never: "\<forall>t. getMessageContent ev s lastPrompt msg \<noteq> Inr (PlainText t)"
      unfolding unf by (simp split: sum.splits)
    have ok: "getMessageContent ev s lastPrompt msg
                   = Inr (Parts (TextPart (message msg)
                       # map (\<lambda>a. ImageUrlPart
                                (''data:'' @ mimeType a @ '';base64,'' @ b64 (path a))
                                (if message msg = message lp then imageDetail s else Low))
                           as))"
      if lp: "lastPrompt = Some lp"
        and rd: "\<forall>a\<in>set as. readFileBase64 ev (path a) = Inr (b64 (path a))" for lp b64
    proof -
      have "\<forall>a\<in>set as. imagePart ev s lastPrompt msg a
              = Inr (ImageUrlPart (''data:'' @ mimeType a @ '';base64,'' @ b64 (path a))
                       (if message msg = message lp then imageDetail s else Low))"
        using lp rd by (simp add: imagePart_def convertImageAttachmentToBase64_def)
      from mapE_all_Inr [OF this] show ?thesis
        unfolding unf by simp
    qed
    from never ok show ?thesis by blast
  qed
  from plain parts show ?thesis by blast
qed

theorem getMessageContent_shape_witness:
  "getMessageContent sample_env sample_settings (Some (turn_with ''user'' ''bye'' []))
     (turn_with ''user'' ''read this'' [notes_pdf]) = Inr (PlainText ''read this'')
   \<and> getMessageContent sample_env sample_settings (Some (turn_with ''user'' ''bye'' []))
       (turn_with ''brain'' ''here is a cat'' [cat_png]) = Inr (PlainText ''here is a cat'')
   \<and> getMessageContent sample_env sample_settings (Some (turn_with ''user'' ''bye'' []))
       \<lparr>role = ''user'', message = ''hello'', attachments = None\<rparr> = Inr (PlainText ''hello'')
   \<and> getMessageContent sample_env sample_settings (Some (turn_with ''user'' ''bye'' []))
       (turn_with ''user'' ''what is this?'' [cat_png, notes_pdf])
     = Inr (Parts [TextPart ''what is this?'',
                   ImageUrlPart ''data:image/png;base64,iVBORw0KGgo='' Low,
                   ImageUrlPart ''data:application/pdf;base64,iVBORw0KGgo='' Low])"
  using getMessageContent_shape
          [of "turn_with ''user'' ''read this'' [notes_pdf]" sample_env sample_settings
              "Some (turn_with ''user'' ''bye'' [])"]
        getMessageContent_shape
          [of "turn_with ''brain'' ''here is a cat'' [cat_png]" sample_env sample_settings
              "Some (turn_with ''user'' ''bye'' [])"]
        getMessageContent_shape
          [of "\<lparr>role = ''user'', message = ''hello'', attachments = None\<rparr>" sample_env
              sample_settings "Some (turn_with ''user'' ''bye'' [])"]
        getMessageContent_shape
          [of "turn_with ''user'' ''what is this?'' [cat_png, notes_pdf]" sample_env
              sample_settings "Some (turn_with ''user'' ''bye'' [])"]
  by (simp add: getMessageContent_def imagePart_def convertImageAttachmentToBase64_def
        truthyCount_def imageAttachmentCount_def startsWith_def turn_with_def cat_png_def
        notes_pdf_def sample_env_def sample_settings_def)

section \<open>Properties of the chat request\<close>

text \<open>
  What \<open>sendTextPrompt\<close> does once validation has passed: composing a message throws
  and nothing is sent, or exactly one chat completion is requested.
\<close>

lemma sendTextPrompt_run:
  fixes src ev this prompts ctx s
  defines "budget \<equiv> (case maxCharactersHistorySize s of None \<Rightarrow> 3000 | Some b \<Rightarrow> b)"
  defines "windowed \<equiv> truncateStringList prompts budget"
  defines "lastPrompt \<equiv> (if windowed = [] then None else Some (last windowed))"
  assumes ok: "success (validateSettings src (settings ctx))"
    and s: "settings ctx = Some s"
    and c: "getClient this s = (client, this')"
  shows "(\<exists>e. mapE (chatMessage ev s lastPrompt) windowed = Inl e
            \<and> sendTextPrompt src ev this prompts ctx = (Inl e, this, []))
       \<or> (\<exists>msgs. mapE (chatMessage ev s lastPrompt) windowed = Inr msgs
            \<and> snd (snd (sendTextPrompt src ev this prompts ctx))
              = [ChatCompletionsCreate client
                   \<lparr>model =
                      (if \<exists>m\<in>set windowed. truthyCount (imageAttachmentCount m)
                       then js_lookup (textModels src) ''vision''
                       else js_lookup (textModels src) (propertyKey (textModel s))),
                    messages = msgs,
                    max_tokens = budget\<rparr>])"
  unfolding budget_def windowed_def lastPrompt_def
  using ok s c
  by (auto simp: sendTextPrompt_def Let_def filter_empty_conv
        split: sum.splits list.splits option.splits)

lemma textModels_vision:
  "js_lookup (textModels src) ''vision''
   = JString (case src of Brain_ts \<Rightarrow> ''gpt-4-vision-preview'' | Part_000 \<Rightarrow> ''gpt-4o-mini'')"
  by (cases src) (simp_all add: js_lookup_def textModels_def)

lemma js_lookup_own:
  "(label, ident) \<in> set (textModels src) \<Longrightarrow> js_lookup (textModels src) label = JString ident"
  by (cases src) (auto simp: js_lookup_def textModels_def)

lemma js_lookup_unrecognized:
  assumes "label \<notin> fst ` set table"
  shows "(\<forall>ident. js_lookup table label \<noteq> JString ident)
         \<and> (label \<notin> set objectPrototypeKeys \<longrightarrow> js_lookup table label = JUndefined)"
proof -
  from assms have "map_of table label = None"
    by (simp add: map_of_eq_None_iff)
  then show ?thesis by (simp add: js_lookup_def)
qed

text \<open>
  The model of the request. Once validation has passed and every message of the
  windowed list has been composed, \<open>sendTextPrompt\<close> sends exactly one chat request. Its
  model is the vision model id when a turn of the windowed list has an attachment whose
  mimeType starts with \<open>image/\<close>, whatever the configured \<open>textModel\<close>; otherwise it is
  the lookup of the configured label in the table \<open>textModels\<close>.
\<close>

lemma sendTextPrompt_selects_model:
  assumes ok: "success (validateSettings src (settings ctx))"
    and s: "settings ctx = Some s"
    and c: "getClient this s = (client, this')"
    and composed:
      "mapE (chatMessage ev s
               (if truncateStringList prompts
                     (case maxCharactersHistorySize s of None \<Rightarrow> 3000 | Some b \<Rightarrow> b) = []
                then None
                else Some (last (truncateStringList prompts
                     (case maxCharactersHistorySize s of None \<Rightarrow> 3000 | Some b \<Rightarrow> b)))))
         (truncateStringList prompts
            (case maxCharactersHistorySize s of None \<Rightarrow> 3000 | Some b \<Rightarrow> b))
       = Inr msgs"
  shows "snd (snd (sendTextPrompt src ev this prompts ctx))
         = [ChatCompletionsCreate client
              \<lparr>model =
                 (if \<exists>m\<in>set (truncateStringList prompts
                          (case maxCharactersHistorySize s of None \<Rightarrow> 3000 | Some b \<Rightarrow> b)).
                       \<exists>as. attachments m = Some as
                          \<and> (\<exists>a\<in>set as. startsWith (mimeType a) ''image/'')
                  then JString (case src of Brain_ts \<Rightarrow> ''gpt-4-vision-preview''
                                          | Part_000 \<Rightarrow> ''gpt-4o-mini'')
                  else js_lookup (textModels src) (propertyKey (textModel s))),
               messages = msgs,
               max_tokens =
                 (case maxCharactersHistorySize s of None \<Rightarrow> 3000 | Some b \<Rightarrow> b)\<rparr>]"
  using sendTextPrompt_run [OF ok s c, of ev prompts] composed
  by (auto simp: truthyCount_imageAttachmentCount textModels_vision)

text \<open>The definitions to unfold when an operation is evaluated on the concrete inputs.\<close>

lemmas sample_eval =
  sendTextPrompt_def Let_def validateSettings_def newValidation_def success_def
  context_with_textModel_def sample_context_def sample_settings_def sample_env_def
  fresh_service_def getClient_def newOpenAI_def truncateStringList_def chatMessage_def
  getMessageContent_def imagePart_def convertImageAttachmentToBase64_def truthyCount_def
  imageAttachmentCount_def startsWith_def turn_with_def cat_png_def dog_png_def
  js_lookup_def textModels_def propertyKey_def objectPrototypeKeys_def trim_def
  isWhiteSpace_def

text \<open>
  C3: the model of the chat request for a label that the table does not have. The
  lookup \<open>textModels[context.settings.textModel]\<close> also finds the members that the
  object literal inherits from \<open>Object.prototype\<close>. With no image in the history and
  the configured label \<open>'constructor'\<close>, which is in neither file's table,
  \<open>sendTextPrompt\<close> sends a request whose model is the inherited member, not
  \<open>undefined\<close>, in both source files. A label such as \<open>'GPT 5'\<close>, which names no
  inherited member, does yield \<open>undefined\<close>.
\<close>

theorem sendTextPrompt_inherited_model:
  "''constructor'' \<notin> fst ` set (textModels Part_000)
   \<and> ''constructor'' \<notin> fst ` set (textModels Brain_ts)
   \<and> sendTextPrompt Part_000 sample_env fresh_service [turn_with ''user'' ''hello'' []]
       (context_with_textModel (Some ''constructor''))
     = (Inr \<lparr>result = ''It is a cat.'', responseAttachments = None,
             validationResult = \<lparr>errors = [], fieldErrors = []\<rparr>\<rparr>,
        \<lparr>openAI = Some \<lparr>clientId = 0, clientApiKey = Some ''sk-0123456789''\<rparr>,
         currentKey = Some ''sk-0123456789'', constructed = 1\<rparr>,
        [ChatCompletionsCreate \<lparr>clientId = 0, clientApiKey = Some ''sk-0123456789''\<rparr>
           \<lparr>model = JInherited ''constructor'',
            messages = [\<lparr>message_role = ''user'', content = PlainText ''hello''\<rparr>],
            max_tokens = 3000\<rparr>])
   \<and> snd (snd (sendTextPrompt Brain_ts sample_env fresh_service
        [turn_with ''user'' ''hello'' []] (context_with_textModel (Some ''constructor''))))
     = [ChatCompletionsCreate \<lparr>clientId = 0, clientApiKey = Some ''sk-0123456789''\<rparr>
           \<lparr>model = JInherited ''constructor'',
            messages = [\<lparr>message_role = ''user'', content = PlainText ''hello''\<rparr>],
            max_tokens = 3000\<rparr>]
   \<and> snd (snd (sendTextPrompt Part_000 sample_env fresh_service
        [turn_with ''user'' ''hello'' []] (context_with_textModel (Some ''GPT 5''))))
     = [ChatCompletionsCreate \<lparr>clientId = 0, clientApiKey = Some ''sk-0123456789''\<rparr>
           \<lparr>model = JUndefined,
            messages = [\<lparr>message_role = ''user'', content = PlainText ''hello''\<rparr>],
            max_tokens = 3000\<rparr>]"
  by (simp add: sample_eval)

text \<open>
  C2: the fidelity of an image part. \<open>getMessageContent\<close> gives the configured
  \<open>imageDetail\<close> to the images of every turn whose message text equals the message text
  of the last windowed turn (\<open>message.message === lastPrompt.message\<close>), not only to
  those of the last turn. With two user turns of the same text, each with a picture,
  and \<open>imageDetail = 'high'\<close>, the picture of the first turn is sent with \<open>high\<close>; when
  the first turn's text differs it is sent with \<open>low\<close>.
\<close>

theorem sendTextPrompt_repeated_message_detail:
  "sendTextPrompt Part_000 sample_env fresh_service
     [turn_with ''user'' ''what is this?'' [cat_png],
      turn_with ''user'' ''what is this?'' [dog_png]] sample_context
   = (Inr \<lparr>result = ''It is a cat.'', responseAttachments = None,
           validationResult = \<lparr>errors = [], fieldErrors = []\<rparr>\<rparr>,
      \<lparr>openAI = Some \<lparr>clientId = 0, clientApiKey = Some ''sk-0123456789''\<rparr>,
       currentKey = Some ''sk-0123456789'', constructed = 1\<rparr>,
      [ChatCompletionsCreate \<lparr>clientId = 0, clientApiKey = Some ''sk-0123456789''\<rparr>
         \<lparr>model = JString ''gpt-4o-mini'',
          messages =
            [\<lparr>message_role = ''user'',
              content = Parts [TextPart ''what is this?'',
                               ImageUrlPart ''data:image/png;base64,iVBORw0KGgo='' High]\<rparr>,
             \<lparr>message_role = ''user'',
              content = Parts [TextPart ''what is this?'',
                               ImageUrlPart ''data:image/png;base64,iVBORw0KGgo='' High]\<rparr>],
          max_tokens = 3000\<rparr>])
   \<and> snd (snd (sendTextPrompt Part_000 sample_env fresh_service
        [turn_with ''user'' ''and this one?'' [cat_png],
         turn_with ''user'' ''what is this?'' [dog_png]] sample_context))
   = [ChatCompletionsCreate \<lparr>clientId = 0, clientApiKey = Some ''sk-0123456789''\<rparr>
         \<lparr>model = JString ''gpt-4o-mini'',
          messages =
            [\<lparr>message_role = ''user'',
              content = Parts [TextPart ''and this one?'',
                               ImageUrlPart ''data:image/png;base64,iVBORw0KGgo='' Low]\<rparr>,
             \<lparr>message_role = ''user'',
              content = Parts [TextPart ''what is this?'',
                               ImageUrlPart ''data:image/png;base64,iVBORw0KGgo='' High]\<rparr>],
          max_tokens = 3000\<rparr>]"
  by (simp add: sample_eval)

section \<open>Properties of the image-generation response\<close>

lemma parseAttachments_strings:
  "expected \<noteq> ''binary'' \<Longrightarrow>
   parseAttachments ev expected atts fetched urls
   = (Inr (atts @ map (\<lambda>u. \<lparr>data = StringData u, fileType = ''image'',
                              responseMimeType = ''image/png''\<rparr>) urls), fetched)"
  by (induction urls arbitrary: atts) simp_all

lemma parseAttachments_binary:
  "\<forall>u\<in>set urls. fetchBuffer ev u = Inr (bytes u) \<Longrightarrow>
   parseAttachments ev ''binary'' atts fetched urls
   = (Inr (atts @ map (\<lambda>u. \<lparr>data = BufferData (bytes u), fileType = ''image'',
                              responseMimeType = ''image/png''\<rparr>) urls),
      fetched @ map Fetch urls)"
  by (induction urls arbitrary: atts fetched) simp_all

text \<open>
  C4: a generation call that passes validation and to which the provider answers with
  a list of images returns an envelope with the empty \<open>result\<close> and one attachment per
  image, in the provider's order, each with \<open>fileType\<close> \<open>'image'\<close> and mimeType
  \<open>'image/png'\<close>. Its \<open>data\<close> is the image's \<open>url\<close>, unchanged, when the prompt expects
  \<open>'url'\<close>; the image's \<open>b64_json\<close>, unchanged, when it expects \<open>'base64'\<close>; and the
  bytes fetched from the image's \<open>url\<close> when it expects \<open>'binary'\<close> and every fetch
  succeeds (the fetches are made in the provider's order, after the generation
  request).
\<close>

theorem generateImage_attachments:
  assumes ok: "success (validateSettings src (settings ctx))"
    and ne: "prompts \<noteq> []"
    and s: "settings ctx = Some s"
    and c: "getClient this s = (client, this')"
    and answer: "imagesGenerate ev client
              (imageGenerateParams src ev s (senderId ctx) (last prompts)
                 (if expectedResponseType (last prompts) = ''base64'' then ''b64_json''
                  else ''url''))
            = Inr images"
  shows "(expectedResponseType (last prompts) = ''url'' \<longrightarrow>
            fst (generateImage src ev this prompts ctx)
            = Inr \<lparr>result = [],
                   responseAttachments =
                     Some (map (\<lambda>d. \<lparr>data = StringData (url d), fileType = ''image'',
                                      responseMimeType = ''image/png''\<rparr>) images),
                   validationResult = validateSettings src (settings ctx)\<rparr>)
       \<and> (expectedResponseType (last prompts) = ''base64'' \<longrightarrow>
            fst (generateImage src ev this prompts ctx)
            = Inr \<lparr>result = [],
                   responseAttachments =
                     Some (map (\<lambda>d. \<lparr>data = StringData (b64_json d), fileType = ''image'',
                                      responseMimeType = ''image/png''\<rparr>) images),
                   validationResult = validateSettings src (settings ctx)\<rparr>)
       \<and> (expectedResponseType (last prompts) = ''binary''
            \<and> (\<forall>d\<in>set images. fetchBuffer ev (url d) = Inr (bytes (url d))) \<longrightarrow>
            fst (generateImage src ev this prompts ctx)
            = Inr \<lparr>result = [],
                   responseAttachments =
                     Some (map (\<lambda>d. \<lparr>data = BufferData (bytes (url d)), fileType = ''image'',
                                      responseMimeType = ''image/png''\<rparr>) images),
                   validationResult = validateSettings src (settings ctx)\<rparr>
            \<and> snd (snd (generateImage src ev this prompts ctx))
              = ImagesGenerate client
                  (imageGenerateParams src ev s (senderId ctx) (last prompts) ''url'')
                # map (\<lambda>d. Fetch (url d)) images)"
proof -
  have by_url: "fst (generateImage src ev this prompts ctx)
            = Inr \<lparr>result = [],
                   responseAttachments =
                     Some (map (\<lambda>d. \<lparr>data = StringData (url d), fileType = ''image'',
                                      responseMimeType = ''image/png''\<rparr>) images),
                   validationResult = validateSettings src (settings ctx)\<rparr>"
    if e: "expectedResponseType (last prompts) = ''url''"
    using ok ne s c answer e
    by (simp add: generateImage_def Let_def parseAttachments_strings comp_def)
  have by_base64: "fst (generateImage src ev this prompts ctx)
            = Inr \<lparr>result = [],
                   responseAttachments =
                     Some (map (\<lambda>d. \<lparr>data = StringData (b64_json d), fileType = ''image'',
                                      responseMimeType = ''image/png''\<rparr>) images),
                   validationResult = validateSettings src (settings ctx)\<rparr>"
    if e: "expectedResponseType (last prompts) = ''base64''"
    using ok ne s c answer e
    by (simp add: generateImage_def Let_def parseAttachments_strings comp_def)
  have by_binary: "fst (generateImage src ev this prompts ctx)
            = Inr \<lparr>result = [],
                   responseAttachments =
                     Some (map (\<lambda>d. \<lparr>data = BufferData (bytes (url d)), fileType = ''image'',
                                      responseMimeType = ''image/png''\<rparr>) images),
                   validationResult = validateSettings src (settings ctx)\<rparr>
            \<and> snd (snd (generateImage src ev this prompts ctx))
              = ImagesGenerate client
                  (imageGenerateParams src ev s (senderId ctx) (last prompts) ''url'')
                # map (\<lambda>d. Fetch (url d)) images"
    if e: "expectedResponseType (last prompts) = ''binary''"
      and f: "\<forall>d\<in>set images. fetchBuffer ev (url d) = Inr (bytes (url d))"
  proof -
    from f have "\<forall>u\<in>set (map url images). fetchBuffer ev u = Inr (bytes u)"
      by simp
    from parseAttachments_binary [OF this, of "[]" "[]"]
    have p: "parseAttachments ev ''binary'' [] [] (map url images)
             = (Inr (map (\<lambda>d. \<lparr>data = BufferData (bytes (url d)), fileType = ''image'',
                                  responseMimeType = ''image/png''\<rparr>) images),
                map (\<lambda>d. Fetch (url d)) images)"
      by (simp add: comp_def)
    show ?thesis
      using ok ne s c answer e
      by (simp add: generateImage_def Let_def p)
  qed
  from by_url by_base64 by_binary show ?thesis by blast
qed

text \<open>The same for \<open>generateImage\<close>.\<close>

lemmas sample_image_eval =
  generateImage_def Let_def validateSettings_def newValidation_def success_def
  sample_context_def sample_settings_def sample_env_def fresh_service_def getClient_def
  newOpenAI_def imageGenerateParams_def js_lookup_def imageModels_def propertyKey_def
  trim_def isWhiteSpace_def decimalDigits_def

theorem generateImage_attachments_witness:
  "success (validateSettings Brain_ts (settings sample_context))
   \<and> fst (generateImage Brain_ts sample_env fresh_service
        [\<lparr>imageMessage = ''a dog'', expectedResponseType = ''url''\<rparr>,
         \<lparr>imageMessage = ''a cat'', expectedResponseType = ''binary''\<rparr>] sample_context)
     = Inr \<lparr>result = [],
            responseAttachments =
              Some [\<lparr>data = BufferData ''PNG https://cdn.example/a.png'', fileType = ''image'',
                     responseMimeType = ''image/png''\<rparr>,
                    \<lparr>data = BufferData ''PNG https://cdn.example/b.png'', fileType = ''image'',
                     responseMimeType = ''image/png''\<rparr>],
            validationResult = \<lparr>errors = [], fieldErrors = []\<rparr>\<rparr>
   \<and> snd (snd (generateImage Brain_ts sample_env fresh_service
        [\<lparr>imageMessage = ''a dog'', expectedResponseType = ''url''\<rparr>,
         \<lparr>imageMessage = ''a cat'', expectedResponseType = ''binary''\<rparr>] sample_context))
     = [ImagesGenerate \<lparr>clientId = 0, clientApiKey = Some ''sk-0123456789''\<rparr>
          \<lparr>image_model = JUndefined, prompt = ''a cat'', n = Some 2, size = Size512x512,
           user = ''user-1'', response_format = ''url''\<rparr>,
        Fetch (Some ''https://cdn.example/a.png''),
        Fetch (Some ''https://cdn.example/b.png'')]
   \<and> generateImage Part_000 sample_env fresh_service
        [\<lparr>imageMessage = ''a cat'', expectedResponseType = ''url''\<rparr>] sample_context
     = (Inr \<lparr>result = [],
            responseAttachments =
              Some [\<lparr>data = StringData (Some ''https://cdn.example/a.png''),
                     fileType = ''image'', responseMimeType = ''image/png''\<rparr>,
                    \<lparr>data = StringData (Some ''https://cdn.example/b.png''),
                     fileType = ''image'', responseMimeType = ''image/png''\<rparr>],
            validationResult = \<lparr>errors = [], fieldErrors = []\<rparr>\<rparr>,
        \<lparr>openAI = Some \<lparr>clientId = 0, clientApiKey = Some ''sk-0123456789''\<rparr>,
         currentKey = Some ''sk-0123456789'', constructed = 1\<rparr>,
        [ImagesGenerate \<lparr>clientId = 0, clientApiKey = Some ''sk-0123456789''\<rparr>
          \<lparr>image_model = JString ''dall-e-3'', prompt = ''a cat'', n = Some 1,
           size = Size1024x1024, user = ''user-1'', response_format = ''url''\<rparr>])
   \<and> generateImage Part_000 sample_env fresh_service
        [\<lparr>imageMessage = ''a cat'', expectedResponseType = ''base64''\<rparr>] sample_context
     = (Inr \<lparr>result = [],
            responseAttachments =
              Some [\<lparr>data = StringData (Some ''QUFB''),
                     fileType = ''image'', responseMimeType = ''image/png''\<rparr>,
                    \<lparr>data = StringData (Some ''QkJC''),
                     fileType = ''image'', responseMimeType = ''image/png''\<rparr>],
            validationResult = \<lparr>errors = [], fieldErrors = []\<rparr>\<rparr>,
        \<lparr>openAI = Some \<lparr>clientId = 0, clientApiKey = Some ''sk-0123456789''\<rparr>,
         currentKey = Some ''sk-0123456789'', constructed = 1\<rparr>,
        [ImagesGenerate \<lparr>clientId = 0, clientApiKey = Some ''sk-0123456789''\<rparr>
          \<lparr>image_model = JString ''dall-e-3'', prompt = ''a cat'', n = Some 1,
           size = Size1024x1024, user = ''user-1'', response_format = ''b64_json''\<rparr>])"
proof -
  let ?prompts = "[\<lparr>imageMessage = ''a dog'', expectedResponseType = ''url''\<rparr>,
                   \<lparr>imageMessage = ''a cat'', expectedResponseType = ''binary''\<rparr>]"
  let ?images = "[\<lparr>url = Some ''https://cdn.example/a.png'', b64_json = None\<rparr>,
                  \<lparr>url = Some ''https://cdn.example/b.png'', b64_json = None\<rparr>]"
  let ?bytes = "\<lambda>u. case u of None \<Rightarrow> [] | Some a \<Rightarrow> ''PNG '' @ a"
  have ok: "success (validateSettings Brain_ts (settings sample_context))"
    by (simp add: validateSettings_success sample_context_def sample_settings_def)
  have ne: "?prompts \<noteq> []"
    by simp
  have s: "settings sample_context = Some sample_settings"
    by (simp add: sample_context_def)
  have c: "getClient fresh_service sample_settings
           = (\<lparr>clientId = 0, clientApiKey = Some ''sk-0123456789''\<rparr>,
              \<lparr>openAI = Some \<lparr>clientId = 0, clientApiKey = Some ''sk-0123456789''\<rparr>,
               currentKey = Some ''sk-0123456789'', constructed = 1\<rparr>)"
    by (simp add: getClient_def newOpenAI_def fresh_service_def sample_settings_def)
  have answer: "imagesGenerate sample_env \<lparr>clientId = 0, clientApiKey = Some ''sk-0123456789''\<rparr>
              (imageGenerateParams Brain_ts sample_env sample_settings
                 (senderId sample_context) (last ?prompts)
                 (if expectedResponseType (last ?prompts) = ''base64'' then ''b64_json''
                  else ''url''))
            = Inr ?images"
    by (simp add: sample_env_def imageGenerateParams_def)
  have fetches: "\<forall>d\<in>set ?images. fetchBuffer sample_env (url d) = Inr (?bytes (url d))"
    by (simp add: sample_env_def)
  show ?thesis
    using ok fetches generateImage_attachments [OF ok ne s c answer, of ?bytes]
    by (simp add: sample_image_eval)
qed

end
